theory Spec2Isabelle
  imports Main
begin

section \<open>Python values, errors and string helpers\<close>

text \<open>
  The loader of \<^verbatim>\<open>vcf2db.py\<close> works on dictionaries from attribute names to
  dynamically typed values. Only the shapes the loader distinguishes are kept:
  \<^verbatim>\<open>None\<close>, byte strings, integers, floats (a float is kept as the string that
  \<^verbatim>\<open>str\<close> gives for it), booleans, numpy arrays and binary blobs.
\<close>

datatype pyscalar = SInt int | SFloat string | SStr string | SBool bool

text \<open>
  A numpy array, by what the loader asks of it: \<^verbatim>\<open>obj.dtype.char\<close>, the byte strings
  that iterating over it gives (used by \<^verbatim>\<open>sep.join(obj)\<close>), \<^verbatim>\<open>obj.tobytes()\<close>,
  \<^verbatim>\<open>obj.tolist()\<close> and \<^verbatim>\<open>str(obj)\<close>.
\<close>

record ndarray =
  dtype_char :: char
  str_items :: "string list"
  tobytes :: string
  tolist :: "pyscalar list"
  array_str :: string

datatype pyval =
    PyNone | PyStr string | PyInt int | PyFloat string | PyBool bool
  | PyArray ndarray | PyBlob string

datatype error =
    KeyError string
  | IndexError
  | TypeError
  | UnknownAnnotation string
  | StorageError string
  | AttributeError string

type_synonym pydict = "string \<rightharpoonup> pyval"

definition dquote :: char where "dquote = CHR 0x22"
definition squote :: char where "squote = CHR 0x27"

text \<open>\<^verbatim>\<open>str.lower()\<close> on a byte string: only the ASCII capitals change.\<close>

definition lower_char :: "char \<Rightarrow> char" where
  "lower_char c =
     (let n = (of_char c :: nat) in if 65 \<le> n \<and> n \<le> 90 then char_of (n + 32) else c)"

definition lower :: "string \<Rightarrow> string" where
  "lower s = map lower_char s"

definition is_lower_char :: "char \<Rightarrow> bool" where
  "is_lower_char c = (let n = (of_char c :: nat) in 97 \<le> n \<and> n \<le> 122)"

definition is_upper_char :: "char \<Rightarrow> bool" where
  "is_upper_char c = (let n = (of_char c :: nat) in 65 \<le> n \<and> n \<le> 90)"

text \<open>\<^verbatim>\<open>str.islower()\<close>: no capital and at least one lowercase letter.\<close>

definition islower :: "string \<Rightarrow> bool" where
  "islower s = ((\<forall>c \<in> set s. \<not> is_upper_char c) \<and> (\<exists>c \<in> set s. is_lower_char c))"


text \<open>\<^verbatim>\<open>s.lstrip(cs)\<close>, \<^verbatim>\<open>s.rstrip(cs)\<close>, \<^verbatim>\<open>s.strip(cs)\<close>.\<close>

definition lstrip :: "string \<Rightarrow> string \<Rightarrow> string" where
  "lstrip cs s = dropWhile (\<lambda>c. c \<in> set cs) s"

definition rstrip :: "string \<Rightarrow> string \<Rightarrow> string" where
  "rstrip cs s = rev (dropWhile (\<lambda>c. c \<in> set cs) (rev s))"

definition strip :: "string \<Rightarrow> string \<Rightarrow> string" where
  "strip cs s = rstrip cs (lstrip cs s)"

text \<open>The whitespace of \<^verbatim>\<open>str.strip()\<close> and of \<^verbatim>\<open>\s\<close>: space, tab, LF, VT, FF, CR.\<close>

definition whitespace :: string where
  "whitespace = [CHR 0x20, CHR 0x09, CHR 0x0A, CHR 0x0B, CHR 0x0C, CHR 0x0D]"

text \<open>\<^verbatim>\<open>s.split(sep)\<close> on single characters: always one piece more than separators.\<close>

fun split_on :: "(char \<Rightarrow> bool) \<Rightarrow> string \<Rightarrow> string list" where
  "split_on p [] = [[]]"
| "split_on p (c # cs) =
     (if p c then [] # split_on p cs
      else (case split_on p cs of
              [] \<Rightarrow> [[c]]
            | w # ws \<Rightarrow> (c # w) # ws))"

text \<open>
  \<^verbatim>\<open>s.split(":", 1)[1]\<close>: the text after the first colon; \<^verbatim>\<open>IndexError\<close> when
  there is no colon.
\<close>

fun after_first :: "char \<Rightarrow> string \<Rightarrow> string option" where
  "after_first a [] = None"
| "after_first a (c # cs) = (if c = a then Some cs else after_first a cs)"

section \<open>Column names: \<^verbatim>\<open>clean\<close>\<close>


section \<open>Schema: column types and header-declared columns\<close>

datatype coltype =
    Integer | SmallInteger | Float | Boolean | String nat | TEXT | LargeBinary

text \<open>
  An \<^verbatim>\<open>sql.Column\<close>: its name, its type and whether it was declared with
  \<^verbatim>\<open>default=-1.0\<close>.
\<close>

record column =
  cname :: string
  ctype :: coltype
  default_minus_one :: bool





subsection \<open>\<^verbatim>\<open>update_impacts_headers\<close>\<close>

text \<open>
  \<^verbatim>\<open>re.split("\s*\|\s*", s)\<close>: a match is a bar with all the whitespace around it,
  so the pieces are those of a split at the bars, each stripped of whitespace on the
  sides where a bar stood.
\<close>

fun strip_after_bar :: "string list \<Rightarrow> string list" where
  "strip_after_bar [] = []"
| "strip_after_bar [q] = [lstrip whitespace q]"
| "strip_after_bar (q # qs) = strip whitespace q # strip_after_bar qs"

definition re_split_bar_ws :: "string \<Rightarrow> string list" where
  "re_split_bar_ws s =
     (case split_on (\<lambda>c. c = CHR ''|'') s of
        [] \<Rightarrow> []
      | [p] \<Rightarrow> [p]
      | p # ps \<Rightarrow> rstrip whitespace p # strip_after_bar ps)"

text \<open>\<^verbatim>\<open>re.split("\||\(", s)\<close>: a split at every bar and every opening parenthesis.\<close>

definition re_split_bar_paren :: "string \<Rightarrow> string list" where
  "re_split_bar_paren s = split_on (\<lambda>c. c = CHR ''|'' \<or> c = CHR ''('') s"

text \<open>The characters of \<^verbatim>\<open>x.strip(" [])'(\"")\<close>.\<close>

definition eff_strip_chars :: string where
  "eff_strip_chars = [CHR '' '', CHR ''['', CHR '']'', CHR '')'', squote, CHR ''('', dquote]"

text \<open>
  The \<^verbatim>\<open>if/elif/else\<close> chain that computes \<^verbatim>\<open>parts\<close>: every raise of the source
  (a missing key, no colon in the description, an unsupported id) is an \<open>Inl\<close>.
\<close>

definition impacts_header_parts :: "(string \<rightharpoonup> string) \<Rightarrow> error + (string \<times> string list)" where
  "impacts_header_parts hdr_dict =
     (case hdr_dict ''Description'' of
        None \<Rightarrow> Inl (KeyError ''Description'')
      | Some desc \<Rightarrow>
          (case hdr_dict ''ID'' of
             None \<Rightarrow> Inl (KeyError ''ID'')
           | Some i \<Rightarrow>
               if i = ''ANN'' then
                 (case after_first (CHR '':'') desc of
                    None \<Rightarrow> Inl IndexError
                  | Some rest \<Rightarrow>
                      Inr (i, map (strip [dquote, squote])
                                (re_split_bar_ws (strip [dquote, CHR '' ''] rest))))
               else if i = ''EFF'' \<or> i = ''CSQ'' then
                 (case after_first (CHR '':'') desc of
                    None \<Rightarrow> Inl IndexError
                  | Some rest \<Rightarrow>
                      Inr (i, map (strip eff_strip_chars)
                                (re_split_bar_paren (strip whitespace rest))))
               else Inl (UnknownAnnotation i)))"

text \<open>
  The registry \<^verbatim>\<open>self.impacts_headers\<close> is passed in and returned; the assignment
  \<^verbatim>\<open>self.impacts_headers[hdr_dict["ID"]] = parts\<close> is the last statement, reached only
  when nothing was raised.
\<close>

definition update_impacts_headers ::
  "(string \<rightharpoonup> string list) \<Rightarrow> (string \<rightharpoonup> string) \<Rightarrow> error option \<times> (string \<rightharpoonup> string list)" where
  "update_impacts_headers impacts_headers hdr_dict =
     (case impacts_header_parts hdr_dict of
        Inl e \<Rightarrow> (Some e, impacts_headers)
      | Inr (i, parts) \<Rightarrow> (None, impacts_headers(i \<mapsto> parts)))"

subsection \<open>\<^verbatim>\<open>variants_info_columns\<close>\<close>





section \<open>The genotype blob encoders\<close>

text \<open>\<^verbatim>\<open>sep.join(xs)\<close>\<close>

fun join :: "string \<Rightarrow> string list \<Rightarrow> string" where
  "join sep [] = []"
| "join sep [x] = x"
| "join sep (x # xs) = x @ sep @ join sep xs"

definition SEP :: string where
  "SEP = [CHR 0x00]"

text \<open>
  \<^verbatim>\<open>snappy_pack_blob\<close>, the compact encoder. \<^verbatim>\<open>snappy.compress\<close> is the parameter
  \<open>compress\<close>.
  \<^verbatim>\<open>
  if obj is None: return ''
  c = obj.dtype.char
  if c == 'S': return 'S' + snappy.compress(sep.join(obj))
  return buffer(c + snappy.compress(obj.tobytes()))
  \<close>
\<close>

definition snappy_pack_blob :: "(string \<Rightarrow> string) \<Rightarrow> ndarray option \<Rightarrow> string" where
  "snappy_pack_blob compress obj =
     (case obj of
        None \<Rightarrow> []
      | Some a \<Rightarrow>
          (let c = dtype_char a in
           if c = CHR ''S'' then CHR ''S'' # compress (join SEP (str_items a))
           else c # compress (tobytes a)))"

text \<open>
  \<^verbatim>\<open>pack_blob\<close>, the legacy encoder. \<^verbatim>\<open>zlib.compress\<close> (with its optional level) and
  \<^verbatim>\<open>pickle.dumps(_, pickle.HIGHEST_PROTOCOL)\<close> are the parameters \<open>zlib_compress\<close> and
  \<open>pickle_dumps\<close>. The default argument \<^verbatim>\<open>_none\<close> is evaluated once, when the function
  is defined: it is the argument \<open>none\<close> here and \<open>pack_blob_none\<close> is its value.
  \<^verbatim>\<open>
  def pack_blob(obj, _none=zlib.compress(pickle.dumps(None, pickle.HIGHEST_PROTOCOL))):
      if obj is None: return _none
      return zlib.compress(pickle.dumps(obj, pickle.HIGHEST_PROTOCOL), 1)
  \<close>
\<close>

definition pack_blob_none ::
  "(nat option \<Rightarrow> string \<Rightarrow> string) \<Rightarrow> (ndarray option \<Rightarrow> string) \<Rightarrow> string" where
  "pack_blob_none zlib_compress pickle_dumps = zlib_compress None (pickle_dumps None)"

definition pack_blob ::
  "(nat option \<Rightarrow> string \<Rightarrow> string) \<Rightarrow> (ndarray option \<Rightarrow> string) \<Rightarrow> string
     \<Rightarrow> ndarray option \<Rightarrow> string" where
  "pack_blob zlib_compress pickle_dumps none obj =
     (case obj of
        None \<Rightarrow> none
      | Some a \<Rightarrow> zlib_compress (Some 1) (pickle_dumps (Some a)))"

section \<open>The per-variant transform: \<^verbatim>\<open>gene_info\<close>\<close>

text \<open>
  An impact object of \<^verbatim>\<open>geneimpacts\<close> is used through attribute access only: it is
  the function from attribute names to values. The sentinel \<^verbatim>\<open>noner\<close> answers
  \<^verbatim>\<open>None\<close> to every attribute.
\<close>

type_synonym effect = "string \<Rightarrow> pyval"

definition noner :: effect where
  "noner = (\<lambda>key. PyNone)"

text \<open>What \<^verbatim>\<open>Effect.top_severity\<close> returns: \<^verbatim>\<open>None\<close>, one impact, or a list of impacts.\<close>

datatype top_result = TopNone | TopOne effect | TopList "effect list"

text \<open>
  \<^verbatim>\<open>
  if isinstance(top, list): top = top[0]
  elif top is None: top = noner
  \<close>
\<close>

definition pick_top :: "top_result \<Rightarrow> error + effect" where
  "pick_top top_result =
     (case top_result of
        TopList [] \<Rightarrow> Inl IndexError
      | TopList (e # _) \<Rightarrow> Inr e
      | TopNone \<Rightarrow> Inr noner
      | TopOne e \<Rightarrow> Inr e)"

definition effect_keys :: "string list" where
  "effect_keys =
     [''gene'', ''transcript'', ''is_exonic'', ''is_coding'', ''is_splicing'',
      ''is_lof'', ''exon'', ''codon_change'', ''aa_change'', ''aa_length'',
      ''biotype'', ''top_consequence'', ''so'', ''effect_severity'',
      ''polyphen_pred'', ''polyphen_score'', ''sift_pred'', ''sift_score'']"

text \<open>
  The first loop: every annotation string present in \<open>d\<close> is split at the commas, each
  entry is decoded (\<open>decode k header entry\<close> stands for the constructors
  \<^verbatim>\<open>geneimpacts.VEP\<close>, \<^verbatim>\<open>SnpEff\<close> and \<^verbatim>\<open>OldSnpEff\<close>), and the key is deleted.
\<close>

fun decode_annotations ::
  "(string \<Rightarrow> string list \<Rightarrow> string \<Rightarrow> effect) \<Rightarrow> (string \<rightharpoonup> string list) \<Rightarrow> string list
     \<Rightarrow> pydict \<Rightarrow> effect list \<Rightarrow> error + (effect list \<times> pydict)" where
  "decode_annotations decode impacts_headers [] d impacts = Inr (impacts, d)"
| "decode_annotations decode impacts_headers (k # ks) d impacts =
     (case d k of
        None \<Rightarrow> decode_annotations decode impacts_headers ks d impacts
      | Some (PyStr s) \<Rightarrow>
          (case impacts_headers k of
             None \<Rightarrow> Inl (KeyError k)
           | Some header \<Rightarrow>
               decode_annotations decode impacts_headers ks (d(k := None))
                 (impacts @ map (decode k header) (split_on (\<lambda>c. c = CHR '','') s)))
      | Some _ \<Rightarrow> Inl (AttributeError ''split''))"

text \<open>\<^verbatim>\<open>for c in gt_cols: d[c] = blobber(d[c])\<close>\<close>

fun blob_cols :: "(pyval \<Rightarrow> pyval) \<Rightarrow> string list \<Rightarrow> pydict \<Rightarrow> error + pydict" where
  "blob_cols blobber [] d = Inr d"
| "blob_cols blobber (c # cs) d =
     (case d c of
        None \<Rightarrow> Inl (KeyError c)
      | Some v \<Rightarrow> blob_cols blobber cs (d(c \<mapsto> blobber v)))"

text \<open>\<^verbatim>\<open>d.get(k)\<close>\<close>

definition dict_get :: "pydict \<Rightarrow> string \<Rightarrow> pyval" where
  "dict_get d k = (case d k of None \<Rightarrow> PyNone | Some v \<Rightarrow> v)"

text \<open>
  \<^verbatim>\<open>
  u = dict.fromkeys(req_cols)
  u.update(d)
  for k in (rc for rc in req_cols if not rc.islower()):
      u[k.lower()] = d.get(k)
  \<close>
  \<open>req_cols\<close> is a Python set; the list is the order in which it is iterated.
\<close>

definition add_required :: "string list \<Rightarrow> pydict \<Rightarrow> pydict" where
  "add_required req_cols d =
     (let u = fold (\<lambda>k m. m(k \<mapsto> PyNone)) req_cols Map.empty;
          u = u ++ d
      in fold (\<lambda>k m. m(lower k \<mapsto> dict_get d k)) (filter (\<lambda>rc. \<not> islower rc) req_cols) u)"

text \<open>One row of the impact table: \<^verbatim>\<open>dict(variant_id=d['variant_id'], gene=impact.gene, ...)\<close>\<close>

definition impact_row :: "pyval \<Rightarrow> effect \<Rightarrow> pydict" where
  "impact_row vid impact =
     (fold (\<lambda>k m. m(k \<mapsto> impact k)) effect_keys Map.empty)(''variant_id'' \<mapsto> vid)"

text \<open>
  The projection of the representative onto the row:
  \<^verbatim>\<open>
  for k in keys: d[k] = getattr(top, k)
  d['impact'] = top.top_consequence
  d['impact_so'] = top.so
  d['impact_severity'] = top.effect_severity
  \<close>
\<close>

definition summary_dict :: "effect \<Rightarrow> pydict \<Rightarrow> pydict" where
  "summary_dict top_effect d =
     (fold (\<lambda>k m. m(k \<mapsto> top_effect k)) effect_keys d)
       (''impact'' \<mapsto> top_effect ''top_consequence'',
        ''impact_so'' \<mapsto> top_effect ''so'',
        ''impact_severity'' \<mapsto> top_effect ''effect_severity'')"

text \<open>
  \<open>top_severity\<close> stands for \<^verbatim>\<open>geneimpacts.Effect.top_severity\<close>. The result is the
  primary row and the impact rows, or the error raised.
\<close>

definition gene_info ::
  "(string \<Rightarrow> string list \<Rightarrow> string \<Rightarrow> effect) \<Rightarrow> (effect list \<Rightarrow> top_result)
     \<Rightarrow> pydict \<Rightarrow> (string \<rightharpoonup> string list) \<Rightarrow> (pyval \<Rightarrow> pyval) \<Rightarrow> string list \<Rightarrow> string list
     \<Rightarrow> error + (pydict \<times> pydict list)" where
  "gene_info decode top_severity d impacts_headers blobber gt_cols req_cols =
     (case decode_annotations decode impacts_headers [''CSQ'', ''ANN'', ''EFF''] d [] of
        Inl e \<Rightarrow> Inl e
      | Inr (impacts, d) \<Rightarrow>
          (case pick_top (top_severity impacts) of
             Inl e \<Rightarrow> Inl e
           | Inr top_effect \<Rightarrow>
               (let d = summary_dict top_effect d
                in case blob_cols blobber gt_cols d of
                     Inl e \<Rightarrow> Inl e
                   | Inr d \<Rightarrow>
                       (let d = add_required req_cols d in
                        case impacts of
                          [] \<Rightarrow> Inr (d, [])
                        | _ # _ \<Rightarrow>
                            (case d ''variant_id'' of
                               None \<Rightarrow> Inl (KeyError ''variant_id'')
                             | Some vid \<Rightarrow> Inr (d, map (impact_row vid) impacts))))))"

section \<open>The declared columns\<close>

definition Column :: "string \<Rightarrow> coltype \<Rightarrow> column" where
  "Column name ty = \<lparr>cname = name, ctype = ty, default_minus_one = False\<rparr>"

definition gt_cols :: "string list" where
  "gt_cols = [''gts'', ''gt_types'', ''gt_phases'', ''gt_depths'', ''gt_ref_depths'',
              ''gt_alt_depths'', ''gt_quals'']"


definition variants_gene_columns :: "column list" where
  "variants_gene_columns =
     [Column ''gene'' (String 20), Column ''transcript'' (String 20),
      Column ''is_exonic'' Boolean, Column ''is_coding'' Boolean, Column ''is_lof'' Boolean,
      Column ''is_splicing'' Boolean, Column ''exon'' (String 8), Column ''codon_change'' TEXT,
      Column ''aa_change'' TEXT, Column ''aa_length'' (String 8), Column ''biotype'' (String 50),
      Column ''impact'' (String 20), Column ''impact_so'' (String 20),
      Column ''impact_severity'' (String 4), Column ''polyphen_pred'' (String 20),
      Column ''polyphen_score'' Float, Column ''sift_pred'' (String 20),
      Column ''sift_score'' Float]"





definition get_variant_impacts_columns :: "column list" where
  "get_variant_impacts_columns = Column ''variant_id'' Integer # variants_gene_columns"

section \<open>Building the dictionary of one record: the body of the loop of \<^verbatim>\<open>_load\<close>\<close>

text \<open>
  A record of the VCF, by the attributes the loop reads. \<open>INFO\<close> is the list of pairs
  that \<^verbatim>\<open>dict(v.INFO)\<close> is built from; \<open>gt_attr c\<close> is the array the loop stores
  under the genotype column \<open>c\<close> (\<^verbatim>\<open>v.gt_bases\<close> or \<^verbatim>\<open>getattr(v, c, None)\<close>, already
  indexed by \<^verbatim>\<open>sample_idxs\<close>), \<open>ALT\<close> is \<^verbatim>\<open>",".join(v.ALT)\<close>.
\<close>

record vcf_variant =
  INFO :: "(string \<times> pyval) list"
  gt_attr :: "string \<Rightarrow> pyval"
  CHROM :: pyval
  v_start :: pyval
  v_end :: pyval
  REF :: pyval
  ALT :: pyval
  QUAL :: pyval
  FILTER :: pyval
  ID :: pyval
  var_type :: pyval
  var_subtype :: pyval
  call_rate :: pyval
  num_hom_ref :: pyval
  num_het :: pyval
  num_hom_alt :: pyval
  aaf :: pyval

text \<open>Lines 174 to 187: the dictionary \<open>d\<close> of the record at position \<open>i\<close>.\<close>

definition variant_dict :: "vcf_variant \<Rightarrow> nat \<Rightarrow> pydict" where
  "variant_dict v i =
     (let d = map_of (rev (INFO v));
          d = fold (\<lambda>c m. m(c \<mapsto> gt_attr v c)) gt_cols d;
          d = d(''chrom'' \<mapsto> CHROM v, ''start'' \<mapsto> v_start v, ''end'' \<mapsto> v_end v);
          d = d(''ref'' \<mapsto> REF v, ''alt'' \<mapsto> ALT v);
          d = d(''qual'' \<mapsto> QUAL v, ''filter'' \<mapsto> FILTER v, ''vcf_id'' \<mapsto> ID v);
          d = d(''variant_id'' \<mapsto> PyInt (int i))
      in d(''type'' \<mapsto> var_type v, ''sub_type'' \<mapsto> var_subtype v,
           ''call_rate'' \<mapsto> call_rate v, ''num_hom_ref'' \<mapsto> num_hom_ref v,
           ''num_het'' \<mapsto> num_het v, ''num_hom_alt'' \<mapsto> num_hom_alt v, ''aaf'' \<mapsto> aaf v))"

text \<open>\<^verbatim>\<open>d.keys()\<close> for that dictionary.\<close>

definition variant_keys :: "vcf_variant \<Rightarrow> string list" where
  "variant_keys v =
     remdups (map fst (INFO v) @ gt_cols @
       [''chrom'', ''start'', ''end'', ''ref'', ''alt'', ''qual'', ''filter'', ''vcf_id'',
        ''variant_id'', ''type'', ''sub_type'', ''call_rate'', ''num_hom_ref'', ''num_het'',
        ''num_hom_alt'', ''aaf''])"

section \<open>The severity ranking\<close>

text \<open>
  Modelled from the spec: \<^verbatim>\<open>geneimpacts.Effect.top_severity\<close>, the ranking of the
  candidates, belongs to the library \<^verbatim>\<open>geneimpacts\<close> and is not in the source. The
  spec (4.4, step 2): the highest-severity candidate wins, ties are broken by the
  order of the candidate list (first-encountered wins), and with no candidates there
  is no representative. \<open>rank\<close> is the severity rank of a candidate. The result has
  the three shapes \<^verbatim>\<open>gene_info\<close> distinguishes: \<^verbatim>\<open>None\<close>, one candidate, or the list of
  the tied candidates in decoding order.
\<close>

primrec max_rank :: "(effect \<Rightarrow> nat) \<Rightarrow> effect list \<Rightarrow> nat" where
  "max_rank rank [] = 0"
| "max_rank rank (e # es) = max (rank e) (max_rank rank es)"

definition top_severity :: "(effect \<Rightarrow> nat) \<Rightarrow> effect list \<Rightarrow> top_result" where
  "top_severity rank effects =
     (case filter (\<lambda>e. rank e = max_rank rank effects) effects of
        [] \<Rightarrow> TopNone
      | [e] \<Rightarrow> TopOne e
      | tops \<Rightarrow> TopList tops)"

section \<open>Concrete inputs\<close>

text \<open>Header entries: an unsupported encoding, a VEP entry, and a VEP entry without a colon.\<close>

definition hdr_unsupported :: "string \<rightharpoonup> string" where
  "hdr_unsupported = [''ID'' \<mapsto> ''BCSQ'', ''Description'' \<mapsto> ''Consequences: gene|transcript'']"

definition hdr_csq :: "string \<rightharpoonup> string" where
  "hdr_csq =
     [''ID'' \<mapsto> ''CSQ'', ''Description'' \<mapsto> ''Consequences from VEP. Format: Allele|Gene|Feature'']"

definition hdr_no_colon :: "string \<rightharpoonup> string" where
  "hdr_no_colon = [''ID'' \<mapsto> ''CSQ'', ''Description'' \<mapsto> ''Consequences from VEP'']"




definition csq_header :: "string \<rightharpoonup> string list" where
  "csq_header = [''CSQ'' \<mapsto> [''Gene'', ''Severity'']]"

definition decode_pair :: "string \<Rightarrow> string list \<Rightarrow> string \<Rightarrow> effect" where
  "decode_pair k header entry =
     (\<lambda>key. if key = ''gene'' then PyStr (takeWhile (\<lambda>c. c \<noteq> CHR ''|'') entry)
            else if key = ''effect_severity''
              then PyStr (drop 1 (dropWhile (\<lambda>c. c \<noteq> CHR ''|'') entry))
            else PyNone)"

definition severity_rank :: "effect \<Rightarrow> nat" where
  "severity_rank e =
     (if e ''effect_severity'' = PyStr ''HIGH'' then 3
      else if e ''effect_severity'' = PyStr ''MED'' then 2 else 1)"

definition empty_blobber :: "pyval \<Rightarrow> pyval" where
  "empty_blobber v = PyBlob []"


text \<open>
  A record, first of its stream, with an attribute named \<^verbatim>\<open>VARIANT_ID\<close> and one
  annotation candidate.
\<close>

definition clashing_variant :: vcf_variant where
  "clashing_variant =
     \<lparr>INFO = [(''VARIANT_ID'', PyInt 7), (''CSQ'', PyStr ''a|HIGH'')], gt_attr = (\<lambda>c. PyNone),
      CHROM = PyStr ''1'', v_start = PyInt 100, v_end = PyInt 101, REF = PyStr ''A'',
      ALT = PyStr ''T'', QUAL = PyNone, FILTER = PyNone, ID = PyNone,
      var_type = PyStr ''snp'', var_subtype = PyStr ''tv'', call_rate = PyNone,
      num_hom_ref = PyInt 0, num_het = PyInt 0, num_hom_alt = PyInt 0, aaf = PyNone\<rparr>"

text \<open>
  Stand-ins for the codec primitives: a compressor that writes the two header bytes of
  a zlib stream before the payload, and a pickler that writes the protocol marker,
  the raw bytes and the stop opcode. And an array of two 64-bit integers.
\<close>

definition zlib_stored :: "nat option \<Rightarrow> string \<Rightarrow> string" where
  "zlib_stored level payload = CHR 0x78 # (if level = Some 1 then CHR 0x01 else CHR 0x9C) # payload"

definition pickle_raw :: "ndarray option \<Rightarrow> string" where
  "pickle_raw obj =
     (case obj of
        None \<Rightarrow> [CHR 0x80, CHR 0x02, CHR ''N'', CHR ''.'']
      | Some a \<Rightarrow> [CHR 0x80, CHR 0x02] @ tobytes a @ [CHR ''.''])"

definition int_array :: ndarray where
  "int_array =
     \<lparr>dtype_char = CHR ''l'', str_items = [], tobytes = [CHR 0x01, CHR 0x02],
      tolist = [SInt 1, SInt 2], array_str = ''[1 2]''\<rparr>"

section \<open>Column names of the header-declared attributes\<close>







section \<open>The annotation header registry\<close>

text \<open>
  Claim C8, as the code has it. An entry whose id is not CSQ, ANN or EFF (or that has no
  id) makes \<^verbatim>\<open>update_impacts_headers\<close> raise, and the registry is the one before the
  call. For the three supported ids the call stores, under the id, the ordered list of
  names parsed from the text after the first colon of the description; a description
  without a colon raises \<^verbatim>\<open>IndexError\<close> and leaves the registry as it was.
\<close>

theorem update_impacts_headers_registers:
  "(hdr ''ID'' \<notin> {Some ''CSQ'', Some ''ANN'', Some ''EFF''} \<longrightarrow>
      (\<exists>e. update_impacts_headers ih hdr = (Some e, ih)))
   \<and> (\<forall>i desc rest. hdr ''ID'' = Some i \<and> i \<in> {''CSQ'', ''ANN'', ''EFF''}
         \<and> hdr ''Description'' = Some desc \<and> after_first (CHR '':'') desc = Some rest \<longrightarrow>
       update_impacts_headers ih hdr =
         (None, ih(i \<mapsto> (if i = ''ANN''
                         then map (strip [dquote, squote])
                                (re_split_bar_ws (strip [dquote, CHR '' ''] rest))
                         else map (strip eff_strip_chars)
                                (re_split_bar_paren (strip whitespace rest))))))
   \<and> (\<forall>i desc. hdr ''ID'' = Some i \<and> i \<in> {''CSQ'', ''ANN'', ''EFF''}
         \<and> hdr ''Description'' = Some desc \<and> after_first (CHR '':'') desc = None \<longrightarrow>
       update_impacts_headers ih hdr = (Some IndexError, ih))"
  by (auto simp: update_impacts_headers_def impacts_header_parts_def split: option.splits)

theorem update_impacts_headers_registers_witness:
  "fst (update_impacts_headers Map.empty hdr_unsupported) \<noteq> None
   \<and> snd (update_impacts_headers Map.empty hdr_unsupported) = Map.empty
   \<and> update_impacts_headers Map.empty hdr_csq =
       (None, [''CSQ'' \<mapsto> [''Allele'', ''Gene'', ''Feature'']])
   \<and> update_impacts_headers Map.empty hdr_no_colon = (Some IndexError, Map.empty)"
proof -
  have a: "hdr_unsupported ''ID'' \<notin> {Some ''CSQ'', Some ''ANN'', Some ''EFF''}"
    by (simp add: hdr_unsupported_def)
  have b: "hdr_csq ''ID'' = Some ''CSQ''"
    "hdr_csq ''Description'' = Some ''Consequences from VEP. Format: Allele|Gene|Feature''"
    by (simp_all add: hdr_csq_def)
  have c: "after_first (CHR '':'') ''Consequences from VEP. Format: Allele|Gene|Feature''
      = Some '' Allele|Gene|Feature''"
    by simp
  have d: "map (strip eff_strip_chars) (re_split_bar_paren (strip whitespace '' Allele|Gene|Feature''))
      = [''Allele'', ''Gene'', ''Feature'']"
    by code_simp
  have e: "hdr_no_colon ''ID'' = Some ''CSQ''"
    "hdr_no_colon ''Description'' = Some ''Consequences from VEP''"
    "after_first (CHR '':'') ''Consequences from VEP'' = None"
    by (simp_all add: hdr_no_colon_def)
  from update_impacts_headers_registers[of hdr_unsupported Map.empty] a
  have 1: "fst (update_impacts_headers Map.empty hdr_unsupported) \<noteq> None
      \<and> snd (update_impacts_headers Map.empty hdr_unsupported) = Map.empty"
    by auto
  from update_impacts_headers_registers[of hdr_csq Map.empty] b c d
  have 2: "update_impacts_headers Map.empty hdr_csq =
      (None, [''CSQ'' \<mapsto> [''Allele'', ''Gene'', ''Feature'']])"
    by simp
  from update_impacts_headers_registers[of hdr_no_colon Map.empty] e
  have 3: "update_impacts_headers Map.empty hdr_no_colon = (Some IndexError, Map.empty)"
    by simp
  from 1 2 3 show ?thesis by simp
qed

text \<open>
  The claim as stated fails for a supported id: the entry \<^verbatim>\<open>CSQ\<close> whose description
  has no colon is not registered.
\<close>

theorem supported_id_not_registered_counterexample:
  "update_impacts_headers Map.empty hdr_no_colon = (Some IndexError, Map.empty)"
  by (simp add: update_impacts_headers_def impacts_header_parts_def hdr_no_colon_def)

section \<open>The per-variant transform\<close>

lemma fold_upd:
  "fold (\<lambda>k m. m(k \<mapsto> f k)) ks m x = (if x \<in> set ks then Some (f x) else m x)"
  by (induction ks arbitrary: m) auto

lemma fold_upd_lower_notin:
  "x \<notin> lower ` set ks \<Longrightarrow> fold (\<lambda>k m. m(lower k \<mapsto> g k)) ks m x = m x"
  by (induction ks arbitrary: m) auto

lemma fold_upd_lower_in:
  "x \<in> lower ` set ks \<Longrightarrow>
     \<exists>k \<in> set ks. lower k = x \<and> fold (\<lambda>k m. m(lower k \<mapsto> g k)) ks m x = Some (g k)"
proof -
  define F where "F = (\<lambda>k (m :: string \<rightharpoonup> 'a). m(lower k \<mapsto> g k))"
  have notin: "fold F ks m x = m x" if "x \<notin> lower ` set ks" for ks m
    unfolding F_def using that by (rule fold_upd_lower_notin)
  have "x \<in> lower ` set ks \<Longrightarrow> \<exists>k \<in> set ks. lower k = x \<and> fold F ks m x = Some (g k)"
  proof (induction ks arbitrary: m)
    case Nil
    then show ?case by simp
  next
    case (Cons a ks)
    have step: "fold F (a # ks) m x = fold F ks (F a m) x" by simp
    show ?case
    proof (cases "x \<in> lower ` set ks")
      case True
      from Cons.IH[OF True, of "F a m"] obtain k where "k \<in> set ks" "lower k = x"
        "fold F ks (F a m) x = Some (g k)" by blast
      with step show ?thesis by (intro bexI[of _ k]) simp_all
    next
      case False
      with Cons.prems have a: "lower a = x" by auto
      from notin[OF False, of "F a m"] have "fold F ks (F a m) x = F a m x" .
      also from a have "F a m x = Some (g a)" by (simp add: F_def)
      finally have "fold F (a # ks) m x = Some (g a)" using step by simp
      with a show ?thesis by (intro bexI[of _ a]) simp_all
    qed
  qed
  then show "x \<in> lower ` set ks \<Longrightarrow> ?thesis" unfolding F_def .
qed

lemma blob_cols_other: "blob_cols b cs d = Inr d' \<Longrightarrow> x \<notin> set cs \<Longrightarrow> d' x = d x"
  by (induction cs arbitrary: d) (auto split: option.splits)

lemma blob_cols_dom: "blob_cols b cs d = Inr d' \<Longrightarrow> dom d' = dom d"
  by (induction cs arbitrary: d) (auto split: option.splits)

lemma decode_annotations_other:
  "decode_annotations dec ih ks d acc = Inr (impacts, d') \<Longrightarrow> x \<notin> set ks \<Longrightarrow> d' x = d x"
  by (induction ks arbitrary: d acc) (auto split: option.splits pyval.splits)

lemma decode_annotations_deleted:
  "decode_annotations dec ih ks d acc = Inr (impacts, d') \<Longrightarrow> x \<in> set ks \<Longrightarrow> d' x = None"
proof (induction ks arbitrary: d acc)
  case Nil
  then show ?case by simp
next
  case (Cons k ks)
  show ?case
  proof (cases "d k")
    case None
    with Cons.prems(1) have r: "decode_annotations dec ih ks d acc = Inr (impacts, d')" by simp
    show ?thesis
    proof (cases "x \<in> set ks")
      case True
      from Cons.IH[OF r True] show ?thesis .
    next
      case False
      with Cons.prems(2) have "x = k" by simp
      with decode_annotations_other[OF r False] None show ?thesis by simp
    qed
  next
    case (Some v)
    with Cons.prems(1) obtain s hdr where v: "v = PyStr s" and h: "ih k = Some hdr"
      and r: "decode_annotations dec ih ks (d(k := None))
                 (acc @ map (dec k hdr) (split_on (\<lambda>c. c = CHR '','') s)) = Inr (impacts, d')"
      by (auto split: pyval.splits option.splits)
    show ?thesis
    proof (cases "x \<in> set ks")
      case True
      from Cons.IH[OF r True] show ?thesis .
    next
      case False
      with Cons.prems(2) have "x = k" by simp
      with decode_annotations_other[OF r False] show ?thesis by simp
    qed
  qed
qed

lemma gene_info_Inr:
  assumes "gene_info dec ts d ih b gtc req = Inr (row, rows)"
  obtains impacts d1 te d4 where
    "decode_annotations dec ih [''CSQ'', ''ANN'', ''EFF''] d [] = Inr (impacts, d1)"
    "pick_top (ts impacts) = Inr te"
    "blob_cols b gtc (summary_dict te d1) = Inr d4"
    "row = add_required req d4"
    "impacts = [] \<longrightarrow> rows = []"
    "impacts \<noteq> [] \<longrightarrow> (\<exists>vid. row ''variant_id'' = Some vid \<and> rows = map (impact_row vid) impacts)"
proof -
  from assms obtain impacts d1 where 1: "decode_annotations dec ih [''CSQ'', ''ANN'', ''EFF''] d [] = Inr (impacts, d1)"
    unfolding gene_info_def by (cases "decode_annotations dec ih [''CSQ'', ''ANN'', ''EFF''] d []") auto
  from assms 1 obtain te where 2: "pick_top (ts impacts) = Inr te"
    unfolding gene_info_def by (cases "pick_top (ts impacts)") auto
  from assms 1 2 obtain d4 where 3: "blob_cols b gtc (summary_dict te d1) = Inr d4"
    unfolding gene_info_def Let_def
    by (cases "blob_cols b gtc (summary_dict te d1)") auto
  from assms 1 2 3 have 4: "row = add_required req d4"
    unfolding gene_info_def Let_def
    by (auto split: list.splits option.splits)
  from assms 1 2 3 have 5: "impacts = [] \<longrightarrow> rows = []"
    unfolding gene_info_def Let_def
    by (auto split: list.splits option.splits)
  from assms 1 2 3 have 6: "impacts \<noteq> [] \<longrightarrow> (\<exists>vid. row ''variant_id'' = Some vid \<and> rows = map (impact_row vid) impacts)"
    unfolding gene_info_def Let_def
    by (auto split: list.splits option.splits)
  from 1 2 3 4 5 6 that show thesis by blast
qed


lemma summary_dict_apply:
  "summary_dict te d x =
     (if x = ''impact_severity'' then Some (te ''effect_severity'')
      else if x = ''impact_so'' then Some (te ''so'')
      else if x = ''impact'' then Some (te ''top_consequence'')
      else if x \<in> set effect_keys then Some (te x) else d x)"
  unfolding summary_dict_def by (simp add: fold_upd)

lemma summary_dict_dom:
  "dom (summary_dict te d) = dom d \<union> set effect_keys \<union> {''impact'', ''impact_so'', ''impact_severity''}"
  by (auto simp: summary_dict_apply dom_def)

lemma add_required_dom:
  "dom (add_required req d) = dom d \<union> set req \<union> set (map lower (filter (\<lambda>rc. \<not> islower rc) req))"
proof -
  have "\<And>x. (add_required req d x \<noteq> None) =
        (x \<in> dom d \<union> set req \<union> set (map lower (filter (\<lambda>rc. \<not> islower rc) req)))"
  proof -
    fix x
    let ?u = "fold (\<lambda>k m. m(k \<mapsto> PyNone)) req Map.empty ++ d"
    let ?ks = "filter (\<lambda>rc. \<not> islower rc) req"
    have u: "(?u x \<noteq> None) = (x \<in> dom d \<union> set req)"
      by (auto simp: map_add_def fold_upd split: option.splits)
    show "(add_required req d x \<noteq> None) = (x \<in> dom d \<union> set req \<union> set (map lower ?ks))"
    proof (cases "x \<in> lower ` set ?ks")
      case True
      from fold_upd_lower_in[OF True, of "dict_get d" ?u] True show ?thesis
        by (auto simp: add_required_def Let_def)
    next
      case False
      from fold_upd_lower_notin[OF False, of "dict_get d" ?u] False u show ?thesis
        by (auto simp: add_required_def Let_def)
    qed
  qed
  then show ?thesis by (auto simp: dom_def)
qed

lemma add_required_lower:
  assumes "k \<in> set req" "\<not> islower k"
  shows "\<exists>k' \<in> set req. \<not> islower k' \<and> lower k' = lower k \<and>
            add_required req d (lower k) = Some (dict_get d k')"
proof -
  from assms have "lower k \<in> lower ` set (filter (\<lambda>rc. \<not> islower rc) req)" by auto
  from fold_upd_lower_in[OF this, of "dict_get d" "fold (\<lambda>k m. m(k \<mapsto> PyNone)) req Map.empty ++ d"]
  show ?thesis by (auto simp: add_required_def Let_def)
qed



lemma effect_keys_lower: "\<forall>k \<in> set effect_keys. islower k"
  by code_simp




lemma pick_top_hd:
  "pick_top (top_severity rank es) =
     (case filter (\<lambda>e. rank e = max_rank rank es) es of [] \<Rightarrow> Inr noner | e # _ \<Rightarrow> Inr e)"
  by (simp add: pick_top_def top_severity_def split: list.splits)








lemma blob_cols_total: "set cs \<subseteq> dom d \<Longrightarrow> \<exists>d'. blob_cols b cs d = Inr d'"
proof (induction cs arbitrary: d)
  case Nil
  then show ?case by simp
next
  case (Cons c cs)
  from Cons.prems obtain v where v: "d c = Some v" by auto
  from Cons.prems have "set cs \<subseteq> dom (d(c \<mapsto> b v))" by auto
  from Cons.IH[OF this] obtain d' where "blob_cols b cs (d(c \<mapsto> b v)) = Inr d'" by blast
  moreover have "blob_cols b (c # cs) d = blob_cols b cs (d(c \<mapsto> b v))"
    by (simp only: blob_cols.simps v option.case)
  ultimately show ?case by (intro exI[of _ d']) simp
qed

lemma gene_info_total:
  assumes a: "decode_annotations dec ih [''CSQ'', ''ANN'', ''EFF''] d [] = Inr (impacts, d1)"
    and p: "pick_top (ts impacts) = Inr te"
    and gt: "set gtc \<subseteq> dom d - {''CSQ'', ''ANN'', ''EFF''}"
    and v: "d ''variant_id'' \<noteq> None"
  shows "\<exists>row rows. gene_info dec ts d ih b gtc req = Inr (row, rows)"
proof -
  have d1: "d1 x = d x" if "x \<notin> {''CSQ'', ''ANN'', ''EFF''}" for x
    using decode_annotations_other[OF a, of x] that by simp
  have "set gtc \<subseteq> dom d1"
  proof
    fix x assume "x \<in> set gtc"
    with gt have x: "x \<in> dom d" "x \<notin> {''CSQ'', ''ANN'', ''EFF''}" by auto
    from d1[OF x(2)] x(1) show "x \<in> dom d1" by (simp add: dom_def)
  qed
  then have "set gtc \<subseteq> dom (summary_dict te d1)" by (auto simp: summary_dict_dom)
  from blob_cols_total[OF this] obtain d4 where 3: "blob_cols b gtc (summary_dict te d1) = Inr d4"
    by blast
  from v d1[of "''variant_id''"] have "''variant_id'' \<in> dom d1" by (auto simp: dom_def)
  then have "''variant_id'' \<in> dom (summary_dict te d1)" by (simp add: summary_dict_dom)
  with blob_cols_dom[OF 3] have "''variant_id'' \<in> dom (add_required req d4)"
    by (simp add: add_required_dom)
  then obtain vid where vid: "add_required req d4 ''variant_id'' = Some vid" by auto
  show ?thesis
  proof (cases impacts)
    case Nil
    with a p 3 show ?thesis by (simp add: gene_info_def)
  next
    case (Cons e es)
    with a p 3 vid show ?thesis by (simp add: gene_info_def)
  qed
qed


lemma decode_annotations_csq:
  assumes "d ''CSQ'' = Some (PyStr s)" "ih ''CSQ'' = Some hdr" "d ''ANN'' = None" "d ''EFF'' = None"
  shows "decode_annotations dec ih [''CSQ'', ''ANN'', ''EFF''] d []
           = Inr (map (dec ''CSQ'' hdr) (split_on (\<lambda>c. c = CHR '','') s), d(''CSQ'' := None))"
  using assms by simp

lemma variant_dict_apply:
  "variant_dict v i x =
     (if x = ''aaf'' then Some (aaf v)
      else if x = ''num_hom_alt'' then Some (num_hom_alt v)
      else if x = ''num_het'' then Some (num_het v)
      else if x = ''num_hom_ref'' then Some (num_hom_ref v)
      else if x = ''call_rate'' then Some (call_rate v)
      else if x = ''sub_type'' then Some (var_subtype v)
      else if x = ''type'' then Some (var_type v)
      else if x = ''variant_id'' then Some (PyInt (int i))
      else if x = ''vcf_id'' then Some (ID v)
      else if x = ''filter'' then Some (FILTER v)
      else if x = ''qual'' then Some (QUAL v)
      else if x = ''alt'' then Some (ALT v)
      else if x = ''ref'' then Some (REF v)
      else if x = ''end'' then Some (v_end v)
      else if x = ''start'' then Some (v_start v)
      else if x = ''chrom'' then Some (CHROM v)
      else if x \<in> set gt_cols then Some (gt_attr v x)
      else map_of (rev (INFO v)) x)"
  unfolding variant_dict_def Let_def by (simp add: fold_upd)

lemma variant_dict_variant_id: "variant_dict v i ''variant_id'' = Some (PyInt (int i))"
  by (simp add: variant_dict_apply)

lemma variant_dict_gt: "set gt_cols \<subseteq> dom (variant_dict v i) - {''CSQ'', ''ANN'', ''EFF''}"
proof
  fix x assume x: "x \<in> set gt_cols"
  then have "x \<notin> {''CSQ'', ''ANN'', ''EFF''}" by (auto simp: gt_cols_def)
  moreover have "variant_dict v i x \<noteq> None" using x by (simp add: variant_dict_apply)
  ultimately show "x \<in> dom (variant_dict v i) - {''CSQ'', ''ANN'', ''EFF''}" by auto
qed











lemma gt_cols_lower: "\<forall>k \<in> set gt_cols. islower k"
  by code_simp

lemma impact_keys_lower: "islower ''impact''" "islower ''impact_so''" "islower ''impact_severity''"
  by code_simp+

lemma gene_info_lower_value:
  assumes g: "gene_info dec ts d ih b gt_cols req = Inr (row, rows)"
    and k: "k \<in> set req" "\<not> islower k"
  shows "\<exists>k' \<in> set req. \<not> islower k' \<and> lower k' = lower k \<and>
           row (lower k) = Some (if k' \<in> {''CSQ'', ''ANN'', ''EFF''} then PyNone else dict_get d k')"
proof -
  from g obtain impacts d1 te d4 where
    1: "decode_annotations dec ih [''CSQ'', ''ANN'', ''EFF''] d [] = Inr (impacts, d1)"
    and 3: "blob_cols b gt_cols (summary_dict te d1) = Inr d4"
    and 4: "row = add_required req d4"
    by (rule gene_info_Inr)
  from add_required_lower[OF k, of d4] obtain k' where k': "k' \<in> set req" "\<not> islower k'"
    "lower k' = lower k" "add_required req d4 (lower k) = Some (dict_get d4 k')" by blast
  from k'(2) gt_cols_lower have "k' \<notin> set gt_cols" by blast
  from blob_cols_other[OF 3 this] have "d4 k' = summary_dict te d1 k'" .
  moreover from k'(2) effect_keys_lower impact_keys_lower
  have "k' \<notin> set effect_keys" "k' \<noteq> ''impact''" "k' \<noteq> ''impact_so''" "k' \<noteq> ''impact_severity''"
    by blast+
  ultimately have d4: "d4 k' = d1 k'" by (simp add: summary_dict_apply)
  have "dict_get d4 k' = (if k' \<in> {''CSQ'', ''ANN'', ''EFF''} then PyNone else dict_get d k')"
  proof (cases "k' \<in> set [''CSQ'', ''ANN'', ''EFF'']")
    case True
    from decode_annotations_deleted[OF 1 True] d4 True show ?thesis by (simp add: dict_get_def)
  next
    case False
    from decode_annotations_other[OF 1 False] d4 False show ?thesis by (simp add: dict_get_def)
  qed
  with k' 4 show ?thesis by (intro bexI[of _ k']) simp_all
qed














section \<open>The variant id of the rows\<close>

text \<open>
  The loop of \<^verbatim>\<open>_load\<close> stores the stream position under \<^verbatim>\<open>variant_id\<close>
  (\<open>variant_dict_variant_id\<close>), and every impact row carries the \<^verbatim>\<open>variant_id\<close> of the
  transformed primary row.
\<close>

lemma impact_row_variant_id: "impact_row vid e ''variant_id'' = Some vid"
  by (simp add: impact_row_def)

lemma impact_rows_share_variant_id:
  assumes "gene_info dec ts d ih b gtc req = Inr (row, rows)"
  shows "\<forall>r \<in> set rows. r ''variant_id'' = row ''variant_id''"
proof -
  from assms obtain impacts where
    5: "impacts = [] \<longrightarrow> rows = []"
    and 6: "impacts \<noteq> [] \<longrightarrow> (\<exists>vid. row ''variant_id'' = Some vid \<and> rows = map (impact_row vid) impacts)"
    by (rule gene_info_Inr)
  show ?thesis
  proof (cases "impacts = []")
    case True
    with 5 show ?thesis by simp
  next
    case False
    with 6 obtain vid where "row ''variant_id'' = Some vid" "rows = map (impact_row vid) impacts"
      by blast
    then show ?thesis by (simp add: impact_row_variant_id)
  qed
qed

lemma clashing_impacts:
  "decode_annotations decode_pair csq_header [''CSQ'', ''ANN'', ''EFF''] (variant_dict clashing_variant i) []
     = Inr ([decode_pair ''CSQ'' [''Gene'', ''Severity''] ''a|HIGH''],
            (variant_dict clashing_variant i)(''CSQ'' := None))"
proof -
  have s: "split_on (\<lambda>c. c = CHR '','') ''a|HIGH'' = [''a|HIGH'']"
    by code_simp
  have g: "''CSQ'' \<notin> set gt_cols" "''ANN'' \<notin> set gt_cols" "''EFF'' \<notin> set gt_cols"
    by code_simp+
  have c: "variant_dict clashing_variant i ''CSQ'' = Some (PyStr ''a|HIGH'')"
    "variant_dict clashing_variant i ''ANN'' = None"
    "variant_dict clashing_variant i ''EFF'' = None"
    by (simp_all add: variant_dict_apply g clashing_variant_def)
  have h: "csq_header ''CSQ'' = Some [''Gene'', ''Severity'']" by (simp add: csq_header_def)
  from decode_annotations_csq[where d = "variant_dict clashing_variant i" and ih = csq_header
      and dec = decode_pair, OF c(1) h c(2) c(3)] s
  show ?thesis by simp
qed

lemma clashing_total:
  "\<exists>row rows. gene_info decode_pair (top_severity severity_rank) (variant_dict clashing_variant i)
       csq_header empty_blobber gt_cols (variant_keys clashing_variant) = Inr (row, rows)"
proof -
  have p: "pick_top (top_severity severity_rank [decode_pair ''CSQ'' [''Gene'', ''Severity''] ''a|HIGH''])
      = Inr (decode_pair ''CSQ'' [''Gene'', ''Severity''] ''a|HIGH'')"
    by (simp add: pick_top_hd)
  from gene_info_total[where d = "variant_dict clashing_variant i" and ih = csq_header
      and dec = decode_pair and ts = "top_severity severity_rank" and gtc = gt_cols,
      OF clashing_impacts p variant_dict_gt]
  show ?thesis by (simp add: variant_dict_variant_id)
qed

lemma clashing_upper:
  "filter (\<lambda>rc. \<not> islower rc) (variant_keys clashing_variant) = [''VARIANT_ID'', ''CSQ'']"
  unfolding clashing_variant_def by code_simp

lemma clashing_lower:
  "lower ''VARIANT_ID'' = ''variant_id''" "lower ''CSQ'' = ''csq''"
  by code_simp+

lemma clashing_attribute: "dict_get (variant_dict clashing_variant i) ''VARIANT_ID'' = PyInt 7"
proof -
  have "''VARIANT_ID'' \<notin> set gt_cols" by code_simp
  then show ?thesis by (simp add: dict_get_def variant_dict_apply clashing_variant_def)
qed


text \<open>
  Claim C4 fails on the first record of a stream that has an attribute named
  \<^verbatim>\<open>VARIANT_ID\<close>: \<^verbatim>\<open>_load\<close> assigns the position 1, and
  \<^verbatim>\<open>u[k.lower()] = d.get(k)\<close> in \<^verbatim>\<open>gene_info\<close> then overwrites it with the value of the
  attribute, 7, which the primary row and its impact row both carry.
\<close>

theorem variant_id_overwritten_by_attribute:
  "variant_dict clashing_variant 1 ''variant_id'' = Some (PyInt 1)
   \<and> (case gene_info decode_pair (top_severity severity_rank) (variant_dict clashing_variant 1)
             csq_header empty_blobber gt_cols (variant_keys clashing_variant) of
         Inl e \<Rightarrow> False
       | Inr (row, rows) \<Rightarrow>
           row ''variant_id'' = Some (PyInt 7)
           \<and> map (\<lambda>r. r ''variant_id'') rows = [Some (PyInt 7)])"
proof -
  from clashing_total[of 1] obtain row rows where
    g: "gene_info decode_pair (top_severity severity_rank) (variant_dict clashing_variant 1)
       csq_header empty_blobber gt_cols (variant_keys clashing_variant) = Inr (row, rows)" by blast
  have k: "''VARIANT_ID'' \<in> set (variant_keys clashing_variant)" "\<not> islower ''VARIANT_ID''"
    unfolding clashing_variant_def by code_simp+
  from gene_info_lower_value[OF g k] obtain k' where
    k': "k' \<in> set (variant_keys clashing_variant)" "\<not> islower k'" "lower k' = lower ''VARIANT_ID''"
    "row (lower ''VARIANT_ID'') = Some (if k' \<in> {''CSQ'', ''ANN'', ''EFF''} then PyNone
        else dict_get (variant_dict clashing_variant 1) k')"
    by blast
  from k'(1,2) have "k' \<in> set (filter (\<lambda>rc. \<not> islower rc) (variant_keys clashing_variant))" by simp
  then have "k' = ''VARIANT_ID'' \<or> k' = ''CSQ''" by (simp add: clashing_upper)
  with k'(3) have "k' = ''VARIANT_ID''" by (auto simp: clashing_lower)
  with k'(4) have row: "row ''variant_id'' = Some (PyInt 7)"
    by (simp add: clashing_lower clashing_attribute del: One_nat_def)
  from g obtain impacts d1 where
    a: "decode_annotations decode_pair csq_header [''CSQ'', ''ANN'', ''EFF'']
          (variant_dict clashing_variant 1) [] = Inr (impacts, d1)"
    and 6: "impacts \<noteq> [] \<longrightarrow> (\<exists>vid. row ''variant_id'' = Some vid \<and> rows = map (impact_row vid) impacts)"
    by (rule gene_info_Inr)
  from a clashing_impacts[of 1] have "impacts = [decode_pair ''CSQ'' [''Gene'', ''Severity''] ''a|HIGH'']"
    by simp
  with 6 row have "map (\<lambda>r. r ''variant_id'') rows = [Some (PyInt 7)]"
    by (auto simp: impact_row_variant_id)
  with row g show ?thesis by (simp add: variant_dict_variant_id del: One_nat_def)
qed


section \<open>The genotype blob encoders\<close>

text \<open>
  Claim C7, as the code has it. Both encoders answer \<^verbatim>\<open>None\<close> with a fixed blob that
  does not depend on any computation of the call: the compact encoder with the empty
  string, the legacy encoder with its default argument, unchanged. For an array, the
  blob of the compact encoder begins with the array's dtype character; the blob of
  the legacy encoder is the compressed pickle of the array, with no tag of its own in
  front.
\<close>

theorem blob_encoders:
  "snappy_pack_blob compress None = []
   \<and> pack_blob zlib_compress pickle_dumps none None = none
   \<and> snappy_pack_blob compress (Some a) \<noteq> []
   \<and> hd (snappy_pack_blob compress (Some a)) = dtype_char a
   \<and> pack_blob zlib_compress pickle_dumps none (Some a)
        = zlib_compress (Some 1) (pickle_dumps (Some a))"
  by (simp add: snappy_pack_blob_def pack_blob_def Let_def)

theorem blob_encoders_witness:
  "snappy_pack_blob (zlib_stored None) None = []
   \<and> pack_blob zlib_stored pickle_raw (pack_blob_none zlib_stored pickle_raw) None
        = [CHR 0x78, CHR 0x9C, CHR 0x80, CHR 0x02, CHR ''N'', CHR ''.'']
   \<and> hd (snappy_pack_blob (zlib_stored None) (Some int_array)) = CHR ''l''
   \<and> pack_blob zlib_stored pickle_raw (pack_blob_none zlib_stored pickle_raw) (Some int_array)
        = [CHR 0x78, CHR 0x01, CHR 0x80, CHR 0x02, CHR 0x01, CHR 0x02, CHR ''.'']"
  using blob_encoders[of "zlib_stored None" zlib_stored pickle_raw
      "pack_blob_none zlib_stored pickle_raw" int_array]
  by (simp add: pack_blob_none_def zlib_stored_def pickle_raw_def int_array_def)


text \<open>
  The claim as stated fails for the legacy encoder: the first byte of its blob is the
  compressor's, not the array's dtype character.
\<close>

theorem legacy_blob_without_tag_counterexample:
  "hd (pack_blob zlib_stored pickle_raw (pack_blob_none zlib_stored pickle_raw) (Some int_array))
     \<noteq> dtype_char int_array"
  by (simp add: pack_blob_def zlib_stored_def int_array_def)


end
